theory Spec2Isabelle
  imports Complex_Main
begin

section \<open>Numbers and string formatting\<close>

text \<open>
  The metric values of \<^verbatim>\<open>main.py\<close> are Python numbers. They are modelled as
  \<^typ>\<open>real\<close> with exact arithmetic: every finite Python number is a real, and the
  functions below branch and compute as the source does on it. Geometry (pixel positions
  and sizes) is integer in the source and is \<^typ>\<open>int\<close> here.
\<close>

text \<open>Python's \<^verbatim>\<open>int(x)\<close> on a number: truncation toward zero.\<close>

definition py_int :: "real \<Rightarrow> int" where
  "py_int x = (if x < 0 then \<lceil>x\<rceil> else \<lfloor>x\<rfloor>)"

definition hex_digit :: "nat \<Rightarrow> char" where
  "hex_digit d = ''0123456789abcdef'' ! d"

fun hex_digits :: "nat \<Rightarrow> string" where
  "hex_digits n =
     (if n < 16 then [hex_digit n] else hex_digits (n div 16) @ [hex_digit (n mod 16)])"

declare hex_digits.simps [simp del]

definition dec_digit :: "nat \<Rightarrow> char" where
  "dec_digit d = ''0123456789'' ! d"

fun dec_digits :: "nat \<Rightarrow> string" where
  "dec_digits n =
     (if n < 10 then [dec_digit n] else dec_digits (n div 10) @ [dec_digit (n mod 10)])"

declare dec_digits.simps [simp del]

text \<open>
  The format specification \<^verbatim>\<open>{i:02x}\<close>: lower-case hexadecimal, zero-padded to
  width two, the sign counting towards the width.
\<close>

definition format_02x :: "int \<Rightarrow> string" where
  "format_02x i =
     (if i < 0 then CHR ''-'' # hex_digits (nat (- i))
      else let s = hex_digits (nat i) in if length s < 2 then CHR ''0'' # s else s)"

text \<open>The f-string \<^verbatim>\<open>f"#{r:02x}{g:02x}{b:02x}"\<close>.\<close>

definition hex_color :: "int \<Rightarrow> int \<Rightarrow> int \<Rightarrow> string" where
  "hex_color r g b = CHR ''#'' # format_02x r @ format_02x g @ format_02x b"

text \<open>\<^verbatim>\<open>str(i)\<close> of an integer, as \<^verbatim>\<open>f"{int(v)}"\<close> prints it.\<close>

definition str_int :: "int \<Rightarrow> string" where
  "str_int i = (if i < 0 then CHR ''-'' # dec_digits (nat (- i)) else dec_digits (nat i))"

text \<open>
  The format specification \<^verbatim>\<open>{v:.0f}\<close>: no decimal places, rounding to the nearest
  integer with ties to the even one; a negative number keeps its sign also when it
  rounds to zero.
\<close>

definition round_half_even :: "real \<Rightarrow> int" where
  "round_half_even x =
     (let f = \<lfloor>x\<rfloor>; d = x - of_int f
      in if d < 1 / 2 then f else if 1 / 2 < d then f + 1 else if even f then f else f + 1)"

definition format_0f :: "real \<Rightarrow> string" where
  "format_0f x =
     (if x < 0 then CHR ''-'' # dec_digits (nat (- round_half_even x))
      else dec_digits (nat (round_half_even x)))"

section \<open>The colour ramps of ResourceBubble\<close>

definition interpolate_color :: "real \<Rightarrow> string" where
  "interpolate_color value_percent =
     (if value_percent \<le> 50 then
        let ratio = value_percent / 50;
            r = py_int (76 + (255 - 76) * ratio);
            g = py_int (175 + (235 - 175) * ratio);
            b = py_int (80 - 80 * ratio)
        in hex_color r g b
      else
        let ratio = (value_percent - 50) / 50;
            r = 255;
            g = py_int (235 - (235 - 82) * ratio);
            b = py_int (59 * (1 - ratio))
        in hex_color r g b)"

definition interpolate_temperature_color :: "real \<Rightarrow> string" where
  "interpolate_temperature_color temp_celsius =
     (if temp_celsius < 50 then ''#4CAF50''
      else if temp_celsius < 60 then
        let ratio = (temp_celsius - 50) / 10;
            r = py_int (76 + (255 - 76) * ratio);
            g = py_int (175 + (235 - 175) * ratio);
            b = py_int (80 - 80 * ratio)
        in hex_color r g b
      else if temp_celsius < 70 then
        let ratio = (temp_celsius - 60) / 10;
            r = 255;
            g = py_int (235 - (235 - 165) * ratio);
            b = py_int (59 * (1 - ratio))
        in hex_color r g b
      else
        let ratio = min ((temp_celsius - 70) / 30) 1;
            r = 255;
            g = py_int (165 - (165 - 82) * ratio);
            b = py_int (59 * (1 - ratio))
        in hex_color r g b)"

text \<open>
  How a colour string of the form \<^verbatim>\<open>#rrggbb\<close> is read back as red, green and blue
  channels (hexadecimal digits of either case). It is used to state what colour a ramp
  returns; the program itself only produces such strings.
\<close>

definition hex_val :: "char \<Rightarrow> int option" where
  "hex_val c = map_of (zip ''0123456789abcdefABCDEF''
                 [0, 1, 2, 3, 4, 5, 6, 7, 8, 9, 10, 11, 12, 13, 14, 15, 10, 11, 12, 13, 14, 15]) c"

definition hex_pair :: "char \<Rightarrow> char \<Rightarrow> int option" where
  "hex_pair hi lo =
     (case (hex_val hi, hex_val lo) of (Some h, Some l) \<Rightarrow> Some (16 * h + l) | _ \<Rightarrow> None)"

fun color_rgb :: "string \<Rightarrow> (int \<times> int \<times> int) option" where
  "color_rgb [h, r1, r0, g1, g0, b1, b0] =
     (if h = CHR ''#'' then
        (case (hex_pair r1 r0, hex_pair g1 g0, hex_pair b1 b0) of
           (Some r, Some g, Some b) \<Rightarrow> Some (r, g, b)
         | _ \<Rightarrow> None)
      else None)"
| "color_rgb _ = None"


definition green_channel :: "string \<Rightarrow> int option" where
  "green_channel s = map_option (fst \<circ> snd) (color_rgb s)"


section \<open>The canvas\<close>

text \<open>
  The drawing surface is a collaborator of the program; what the program relies on is an
  item store: \<^verbatim>\<open>create_rectangle\<close> and \<^verbatim>\<open>create_text\<close> add an item and return its
  identifier (counted from 1), \<^verbatim>\<open>coords\<close> replaces an item's coordinates and
  \<^verbatim>\<open>itemconfig\<close> sets one of its options. All five bubbles draw on the same canvas,
  so the canvas is passed explicitly through every operation.
\<close>

datatype opt = Str string | Num int | Font string int string

record item =
  kind :: string
  coords :: "real list"
  options :: "string \<rightharpoonup> opt"

record canvas =
  cv_width :: int
  cv_height :: int
  cv_bg :: string
  items :: "nat \<rightharpoonup> item"
  next_id :: nat

definition Canvas :: "int \<Rightarrow> int \<Rightarrow> string \<Rightarrow> canvas" where
  "Canvas w h bg = \<lparr>cv_width = w, cv_height = h, cv_bg = bg, items = Map.empty, next_id = 1\<rparr>"

definition create_item :: "canvas \<Rightarrow> item \<Rightarrow> nat \<times> canvas" where
  "create_item c it =
     (let i = next_id c in (i, c\<lparr>items := (items c)(i \<mapsto> it), next_id := i + 1\<rparr>))"

definition create_rectangle ::
    "canvas \<Rightarrow> real \<Rightarrow> real \<Rightarrow> real \<Rightarrow> real \<Rightarrow> (string \<times> opt) list \<Rightarrow> nat \<times> canvas" where
  "create_rectangle c x0 y0 x1 y1 opts =
     create_item c \<lparr>kind = ''rectangle'', coords = [x0, y0, x1, y1], options = map_of opts\<rparr>"

definition create_text :: "canvas \<Rightarrow> real \<Rightarrow> real \<Rightarrow> (string \<times> opt) list \<Rightarrow> nat \<times> canvas" where
  "create_text c x0 y0 opts =
     create_item c \<lparr>kind = ''text'', coords = [x0, y0], options = map_of opts\<rparr>"

definition canvas_coords :: "canvas \<Rightarrow> nat \<Rightarrow> real list \<Rightarrow> canvas" where
  "canvas_coords c i cs =
     (case items c i of
        None \<Rightarrow> c
      | Some it \<Rightarrow> c\<lparr>items := (items c)(i \<mapsto> it\<lparr>coords := cs\<rparr>)\<rparr>)"

definition itemconfig :: "canvas \<Rightarrow> nat \<Rightarrow> string \<Rightarrow> opt \<Rightarrow> canvas" where
  "itemconfig c i k v =
     (case items c i of
        None \<Rightarrow> c
      | Some it \<Rightarrow> c\<lparr>items := (items c)(i \<mapsto> it\<lparr>options := (options it)(k \<mapsto> v)\<rparr>)\<rparr>)"

section \<open>ResourceBubble\<close>

text \<open>
  The attributes of a \<^verbatim>\<open>ResourceBubble\<close>, each \<^verbatim>\<open>self.name\<close> of the source as
  the field \<open>b_name\<close>. The last four are the identifiers of the bubble's canvas items.
\<close>

record ResourceBubble =
  b_x :: int
  b_y :: int
  b_width :: int
  b_height :: int
  b_label :: string
  b_max_value :: real
  b_unit :: string
  b_value :: real
  b_is_temperature :: bool
  b_bg_rect :: nat
  b_fill_rect :: nat
  b_label_text :: nat
  b_value_text :: nat

text \<open>The unit string of the temperature bubble: the degree sign (U+00B0) and \<open>C\<close>.\<close>

definition deg_C :: string where
  "deg_C = [CHR 0xB0, CHR ''C'']"

definition ResourceBubble_init ::
    "canvas \<Rightarrow> int \<Rightarrow> int \<Rightarrow> int \<Rightarrow> int \<Rightarrow> string \<Rightarrow> real \<Rightarrow> string \<Rightarrow> bool
       \<Rightarrow> ResourceBubble \<times> canvas" where
  "ResourceBubble_init c0 x y width height label max_value unit is_temperature =
     (let (bg_rect, c1) = create_rectangle c0 (of_int x) (of_int y)
              (of_int (x + width)) (of_int (y + height))
              [(''fill'', Str ''#2b2b2b''), (''outline'', Str ''#404040''), (''width'', Num 1)];
          (fill_rect, c2) = create_rectangle c1 (of_int x) (of_int y)
              (of_int x) (of_int (y + height))
              [(''fill'', Str ''#4CAF50''), (''outline'', Str [])];
          text_y = y + height div 2;
          (label_text, c3) = create_text c2 (of_int (x + 5)) (of_int text_y)
              [(''text'', Str label), (''anchor'', Str ''w''),
               (''font'', Font ''Segoe UI'' 8 ''bold''), (''fill'', Str ''#e0e0e0'')];
          (value_text, c4) = create_text c3 (of_int (x + width - 5)) (of_int text_y)
              [(''text'', Str (''0'' @ unit)), (''anchor'', Str ''e''),
               (''font'', Font ''Segoe UI'' 8 ''bold''), (''fill'', Str ''#e0e0e0'')]
      in (\<lparr>b_x = x, b_y = y, b_width = width, b_height = height, b_label = label,
            b_max_value = max_value, b_unit = unit, b_value = 0,
            b_is_temperature = is_temperature, b_bg_rect = bg_rect, b_fill_rect = fill_rect,
            b_label_text = label_text, b_value_text = value_text\<rparr>, c4))"

text \<open>
  The errors \<^verbatim>\<open>update\<close> can raise: \<^verbatim>\<open>min(None, max_value)\<close> is a
  \<^verbatim>\<open>TypeError\<close>, and the division by \<^verbatim>\<open>max_value\<close> is a
  \<^verbatim>\<open>ZeroDivisionError\<close> when that is zero. A raise is the left injection and carries
  the state reached when it happened: the assignment to \<^verbatim>\<open>self.value\<close> precedes the
  division.
\<close>

datatype error = TypeError | ZeroDivisionError

definition update ::
    "ResourceBubble \<Rightarrow> real option \<Rightarrow> canvas
       \<Rightarrow> (error \<times> ResourceBubble \<times> canvas) + (ResourceBubble \<times> canvas)" where
  "update self val c =
     (case val of
        None \<Rightarrow> Inl (TypeError, self, c)
      | Some v \<Rightarrow>
          let self1 = self\<lparr>b_value := min v (b_max_value self)\<rparr>
          in if b_max_value self1 = 0 then Inl (ZeroDivisionError, self1, c)
             else
               let value_percent = (b_value self1 / b_max_value self1) * 100;
                   fill_width = (b_value self1 / b_max_value self1) * of_int (b_width self1);
                   c1 = canvas_coords c (b_fill_rect self1)
                          [of_int (b_x self1), of_int (b_y self1),
                           of_int (b_x self1) + fill_width,
                           of_int (b_y self1 + b_height self1)];
                   color = (if b_is_temperature self1
                            then interpolate_temperature_color (b_value self1)
                            else interpolate_color value_percent);
                   c2 = itemconfig c1 (b_fill_rect self1) ''fill'' (Str color);
                   text = (if b_unit self1 = deg_C
                           then str_int (py_int (b_value self1)) @ b_unit self1
                           else format_0f (b_value self1) @ b_unit self1);
                   c3 = itemconfig c2 (b_value_text self1) ''text'' (Str text)
               in Inr (self1, c3))"

text \<open>The state a call ends in, whether it returned or raised.\<close>

definition final_state :: "(error \<times> 's) + 's \<Rightarrow> 's" where
  "final_state r = (case r of Inl (e, s) \<Rightarrow> s | Inr s \<Rightarrow> s)"


definition fill_color :: "ResourceBubble \<Rightarrow> canvas \<Rightarrow> opt option" where
  "fill_color b c = Option.bind (items c (b_fill_rect b)) (\<lambda>it. options it ''fill'')"




section \<open>ResourceMonitor\<close>

record ResourceMonitor =
  window_width :: int
  window_height :: int
  canvas :: canvas
  cpu_bubble :: ResourceBubble
  ram_bubble :: ResourceBubble
  gpu_bubble :: ResourceBubble
  vram_bubble :: ResourceBubble
  temp_bubble :: ResourceBubble

text \<open>
  \<^verbatim>\<open>create_widgets\<close>, for the window size that \<^verbatim>\<open>__init__\<close> has set: the
  canvas and the five bubbles in a row.
\<close>

definition create_widgets :: "int \<Rightarrow> int \<Rightarrow> ResourceMonitor" where
  "create_widgets w h =
     (let c0 = Canvas w h ''#1e1e1e'';
          bubble_width = 85;
          bubble_height = 30;
          bubble_y = 5;
          spacing = 3;
          start_x = 5;
          (cpu, c1) = ResourceBubble_init c0 start_x bubble_y bubble_width bubble_height
                        ''CPU'' 100 ''%'' False;
          (ram, c2) = ResourceBubble_init c1 (start_x + (bubble_width + spacing) * 1) bubble_y
                        bubble_width bubble_height ''RAM'' 100 ''%'' False;
          (gpu, c3) = ResourceBubble_init c2 (start_x + (bubble_width + spacing) * 2) bubble_y
                        bubble_width bubble_height ''GPU'' 100 ''%'' False;
          (vram, c4) = ResourceBubble_init c3 (start_x + (bubble_width + spacing) * 3) bubble_y
                        bubble_width bubble_height ''VRAM'' 100 ''%'' False;
          (temp, c5) = ResourceBubble_init c4 (start_x + (bubble_width + spacing) * 4) bubble_y
                        bubble_width bubble_height ''Temp'' 100 deg_C True
      in \<lparr>window_width = w, window_height = h, canvas = c5, cpu_bubble = cpu,
           ram_bubble = ram, gpu_bubble = gpu, vram_bubble = vram, temp_bubble = temp\<rparr>)"

text \<open>The monitor as \<^verbatim>\<open>ResourceMonitor.__init__\<close> leaves it: a 450 by 40 window.\<close>

definition fresh_monitor :: ResourceMonitor where
  "fresh_monitor = create_widgets 450 40"




section \<open>The GPU query\<close>

text \<open>
  The GPU backend is a collaborator. What \<^verbatim>\<open>get_gpu_stats\<close> sees of it is the flag
  \<^verbatim>\<open>GPU_AVAILABLE\<close> (whether the import succeeded) and the outcome of
  \<^verbatim>\<open>GPUtil.getGPUs()\<close>: either an exception, an instance of \<^verbatim>\<open>Exception\<close> with
  the message \<^verbatim>\<open>str(e)\<close>, or the list of GPUs. A GPU has a load and a memory
  utilisation, both fractions, and a temperature when it has that attribute.
\<close>

datatype exception = Exception string

record gpu_info =
  load :: real
  memoryUtil :: real
  temperature :: "real option"

type_synonym gpu_stats = "real option \<times> real option \<times> real option"

text \<open>
  The body of the \<^verbatim>\<open>try\<close> block: it raises what the backend raises, returns the
  three readings of the first GPU, or falls through (\<open>None\<close>) when the list is empty.
\<close>

definition gpu_try_body :: "exception + gpu_info list \<Rightarrow> exception + gpu_stats option" where
  "gpu_try_body getGPUs =
     (case getGPUs of
        Inl e \<Rightarrow> Inl e
      | Inr gpus \<Rightarrow>
          (case gpus of
             [] \<Rightarrow> Inr None
           | gpu # _ \<Rightarrow>
               let gpu_load = load gpu * 100;
                   vram_load = memoryUtil gpu * 100;
                   temp = temperature gpu
               in Inr (Some (Some gpu_load, Some vram_load, temp))))"

text \<open>
  The whole method, with the lines printed so far as the state: \<^verbatim>\<open>except Exception\<close>
  prints the message and lets control reach the final \<^verbatim>\<open>return None, None, None\<close>.
\<close>

definition get_gpu_stats ::
    "bool \<Rightarrow> exception + gpu_info list \<Rightarrow> string list \<Rightarrow> exception + (gpu_stats \<times> string list)" where
  "get_gpu_stats GPU_AVAILABLE getGPUs out =
     (if \<not> GPU_AVAILABLE then Inr ((None, None, None), out)
      else
        (case gpu_try_body getGPUs of
           Inr (Some stats) \<Rightarrow> Inr (stats, out)
         | Inr None \<Rightarrow> Inr ((None, None, None), out)
         | Inl (Exception msg) \<Rightarrow> Inr ((None, None, None), out @ [''GPU stats error: '' @ msg])))"

section \<open>Colour strings read back\<close>

lemma py_int_nonneg: "0 \<le> x \<Longrightarrow> py_int x = \<lfloor>x\<rfloor>"
  by (simp add: py_int_def)







lemmas ramp_eval = py_int_def hex_color_def format_02x_def hex_digits.simps hex_digit_def
  hex_pair_def hex_val_def Let_def



section \<open>The linear ramp\<close>

text \<open>
  Claim C3. For the linear ramp, the colour at 0 percent is RGB(76,175,80), at 50 percent
  RGB(255,235,0) and at 100 percent RGB(255,82,0).
\<close>

theorem linear_ramp_endpoints:
  "interpolate_color 0 = ''#4caf50'' \<and> color_rgb (interpolate_color 0) = Some (76, 175, 80) \<and>
   interpolate_color 50 = ''#ffeb00'' \<and> color_rgb (interpolate_color 50) = Some (255, 235, 0) \<and>
   interpolate_color 100 = ''#ff5200'' \<and> color_rgb (interpolate_color 100) = Some (255, 82, 0)"
  by (simp add: interpolate_color_def ramp_eval)




section \<open>The temperature ramp\<close>




text \<open>
  Claim C5. The upper bound of every band is a strict comparison: exactly 50 falls into
  the band from 50 to 60 and yields RGB(76,175,80) at ratio 0, written by the format
  string and not as the constant of the band below 50; exactly 60 starts the next band;
  exactly 70 falls into the last band and yields RGB(255,165,59).
\<close>

theorem temperature_ramp_boundaries:
  "interpolate_temperature_color 50 = ''#4caf50'' \<and>
   interpolate_temperature_color 50 = hex_color 76 175 80 \<and>
   interpolate_temperature_color 50 \<noteq> ''#4CAF50'' \<and>
   color_rgb (interpolate_temperature_color 50) = Some (76, 175, 80) \<and>
   interpolate_temperature_color 60 = ''#ffeb3b'' \<and>
   color_rgb (interpolate_temperature_color 60) = Some (255, 235, 59) \<and>
   interpolate_temperature_color 70 = ''#ffa53b'' \<and>
   color_rgb (interpolate_temperature_color 70) = Some (255, 165, 59)"
  by (simp add: interpolate_temperature_color_def ramp_eval)







section \<open>What update does to the bubble and the canvas\<close>

lemma items_canvas_coords:
  "items (canvas_coords c i cs) j =
     (if j = i then map_option (\<lambda>it. it\<lparr>coords := cs\<rparr>) (items c i) else items c j)"
  by (simp add: canvas_coords_def split: option.splits)

lemma items_itemconfig:
  "items (itemconfig c i k v) j =
     (if j = i then map_option (\<lambda>it. it\<lparr>options := (options it)(k \<mapsto> v)\<rparr>) (items c i)
      else items c j)"
  by (simp add: itemconfig_def split: option.splits)

lemma canvas_coords_frame:
  "cv_width (canvas_coords c i cs) = cv_width c" "cv_height (canvas_coords c i cs) = cv_height c"
  "cv_bg (canvas_coords c i cs) = cv_bg c" "next_id (canvas_coords c i cs) = next_id c"
  by (simp_all add: canvas_coords_def split: option.splits)

lemma itemconfig_frame:
  "cv_width (itemconfig c i k v) = cv_width c" "cv_height (itemconfig c i k v) = cv_height c"
  "cv_bg (itemconfig c i k v) = cv_bg c" "next_id (itemconfig c i k v) = next_id c"
  by (simp_all add: itemconfig_def split: option.splits)

lemma update_None: "update b None c = Inl (TypeError, b, c)"
  by (simp add: update_def)

lemma update_zero_max:
  "b_max_value b = 0 \<Longrightarrow>
   update b (Some v) c = Inl (ZeroDivisionError, b\<lparr>b_value := min v (b_max_value b)\<rparr>, c)"
  by (simp add: update_def Let_def)

lemma update_Some:
  "b_max_value b \<noteq> 0 \<Longrightarrow>
   update b (Some v) c =
     Inr (b\<lparr>b_value := min v (b_max_value b)\<rparr>,
          itemconfig
            (itemconfig
               (canvas_coords c (b_fill_rect b)
                  [of_int (b_x b), of_int (b_y b),
                   of_int (b_x b) + min v (b_max_value b) / b_max_value b * of_int (b_width b),
                   of_int (b_y b + b_height b)])
               (b_fill_rect b) ''fill''
               (Str (if b_is_temperature b
                     then interpolate_temperature_color (min v (b_max_value b))
                     else interpolate_color (min v (b_max_value b) / b_max_value b * 100))))
            (b_value_text b) ''text''
            (Str (if b_unit b = deg_C
                  then str_int (py_int (min v (b_max_value b))) @ b_unit b
                  else format_0f (min v (b_max_value b)) @ b_unit b)))"
  by (simp add: update_def Let_def)

lemma update_final_bubble:
  "fst (final_state (update b (Some v) c)) = b\<lparr>b_value := min v (b_max_value b)\<rparr>"
  by (cases "b_max_value b = 0") (simp_all add: update_zero_max update_Some final_state_def)

lemma update_items_other:
  "j \<noteq> b_fill_rect b \<Longrightarrow> j \<noteq> b_value_text b \<Longrightarrow>
   items (snd (final_state (update b val c))) j = items c j"
  by (cases val; cases "b_max_value b = 0")
     (simp_all add: update_None update_zero_max update_Some final_state_def
        items_itemconfig items_canvas_coords)

lemma update_items_dom: "dom (items (snd (final_state (update b val c)))) = dom (items c)"
  by (cases val; cases "b_max_value b = 0")
     (auto simp add: update_None update_zero_max update_Some final_state_def
        items_itemconfig items_canvas_coords dom_def split: if_splits)

lemma update_canvas_frame:
  "cv_width (snd (final_state (update b val c))) = cv_width c"
  "cv_height (snd (final_state (update b val c))) = cv_height c"
  "cv_bg (snd (final_state (update b val c))) = cv_bg c"
  "next_id (snd (final_state (update b val c))) = next_id c"
  by (cases val; cases "b_max_value b = 0";
      simp add: update_None update_zero_max update_Some final_state_def
        itemconfig_frame canvas_coords_frame)+


lemma update_fill_color:
  assumes "b_max_value b \<noteq> 0" "b_fill_rect b \<in> dom (items c)"
  shows "fill_color b (snd (final_state (update b (Some v) c))) =
     Some (Str (if b_is_temperature b
                then interpolate_temperature_color (min v (b_max_value b))
                else interpolate_color (min v (b_max_value b) / b_max_value b * 100)))"
  using assms
  by (auto simp add: update_Some final_state_def fill_color_def items_itemconfig
        items_canvas_coords)


section \<open>The fresh monitor\<close>

lemma init_bubble:
  "fst (ResourceBubble_init c x y w h l m u t) =
     \<lparr>b_x = x, b_y = y, b_width = w, b_height = h, b_label = l, b_max_value = m,
       b_unit = u, b_value = 0, b_is_temperature = t, b_bg_rect = next_id c,
       b_fill_rect = next_id c + 1, b_label_text = next_id c + 2,
       b_value_text = next_id c + 3\<rparr>"
  by (simp add: ResourceBubble_init_def create_rectangle_def create_text_def create_item_def
        Let_def)

lemma init_next_id:
  "next_id (snd (ResourceBubble_init c x y w h l m u t)) = next_id c + 4"
  by (simp add: ResourceBubble_init_def create_rectangle_def create_text_def create_item_def
        Let_def)

lemma init_items_dom:
  "dom (items (snd (ResourceBubble_init c x y w h l m u t))) =
     dom (items c) \<union> {next_id c ..< next_id c + 4}"
  by (auto simp add: ResourceBubble_init_def create_rectangle_def create_text_def create_item_def
        Let_def split: if_splits)

lemmas fresh_eval = fresh_monitor_def create_widgets_def Let_def split_beta init_bubble
  init_next_id init_items_dom Canvas_def

lemma fresh_cpu:
  "cpu_bubble fresh_monitor =
     \<lparr>b_x = 5, b_y = 5, b_width = 85, b_height = 30, b_label = ''CPU'', b_max_value = 100,
       b_unit = ''%'', b_value = 0, b_is_temperature = False, b_bg_rect = 1,
       b_fill_rect = 2, b_label_text = 3, b_value_text = 4\<rparr>"
  by (simp add: fresh_eval)







section \<open>The stored value\<close>

text \<open>
  Claim C1, as stated: after every update, also with a negative input, the stored value
  is between 0 and the maximum. The CPU bubble of the fresh monitor, updated with -5,
  returns and stores -5.
\<close>

theorem update_negative_counterexample:
  "update (cpu_bubble fresh_monitor) (Some (- 5)) (canvas fresh_monitor) =
     Inr (final_state (update (cpu_bubble fresh_monitor) (Some (- 5)) (canvas fresh_monitor))) \<and>
   b_value (fst (final_state (update (cpu_bubble fresh_monitor) (Some (- 5))
      (canvas fresh_monitor)))) = - 5 \<and>
   \<not> 0 \<le> b_value (fst (final_state (update (cpu_bubble fresh_monitor) (Some (- 5))
      (canvas fresh_monitor))))"
  by (simp add: update_final_bubble update_Some final_state_def fresh_cpu)


text \<open>
  Claim C1, amended: after every update with a number the stored value is the minimum of
  the input and the maximum, so it never exceeds the maximum; there is no lower clamp,
  and for a non-negative maximum the stored value is non-negative exactly when the input
  is. This holds also when the update raises for a zero maximum.
\<close>

theorem update_clamps_above:
  "b_value (fst (final_state (update b (Some v) c))) = min v (b_max_value b) \<and>
   b_value (fst (final_state (update b (Some v) c))) \<le>
     b_max_value (fst (final_state (update b (Some v) c))) \<and>
   (0 \<le> b_max_value b \<longrightarrow>
      (0 \<le> b_value (fst (final_state (update b (Some v) c)))) = (0 \<le> v))"
  by (auto simp add: update_final_bubble)


text \<open>The amended claim C1 on the CPU bubble of the fresh monitor, updated with 150.\<close>

theorem update_clamps_above_witness:
  "(0::real) \<le> b_max_value (cpu_bubble fresh_monitor) \<and>
   b_value (fst (final_state (update (cpu_bubble fresh_monitor) (Some 150)
      (canvas fresh_monitor)))) = 100 \<and>
   b_max_value (fst (final_state (update (cpu_bubble fresh_monitor) (Some 150)
      (canvas fresh_monitor)))) = 100 \<and>
   0 \<le> b_value (fst (final_state (update (cpu_bubble fresh_monitor) (Some 150)
      (canvas fresh_monitor))))"
  using update_clamps_above [of "cpu_bubble fresh_monitor" 150 "canvas fresh_monitor"]
  by (simp add: fresh_cpu update_final_bubble)

section \<open>Digits and rounding of the value text\<close>







section \<open>An absent value\<close>






section \<open>A sample applied to the fresh monitor\<close>











section \<open>The value text\<close>




section \<open>What update leaves alone\<close>

text \<open>
  Claim C10. An update with a number changes only the stored value of the bubble, and
  on the canvas only the fill rectangle and the value text: label, unit, maximum,
  temperature flag, position and size of the bubble and its item identifiers are
  unchanged, every other item of the canvas is unchanged, no item is added or removed.
  This holds also when the update raises for a zero maximum.
\<close>

theorem update_frame:
  "let r = final_state (update b (Some v) c)
   in b_label (fst r) = b_label b \<and> b_unit (fst r) = b_unit b \<and>
      b_max_value (fst r) = b_max_value b \<and>
      b_is_temperature (fst r) = b_is_temperature b \<and>
      b_x (fst r) = b_x b \<and> b_y (fst r) = b_y b \<and>
      b_width (fst r) = b_width b \<and> b_height (fst r) = b_height b \<and>
      b_bg_rect (fst r) = b_bg_rect b \<and> b_fill_rect (fst r) = b_fill_rect b \<and>
      b_label_text (fst r) = b_label_text b \<and> b_value_text (fst r) = b_value_text b \<and>
      fst r = b\<lparr>b_value := b_value (fst r)\<rparr> \<and>
      (\<forall>j. j \<noteq> b_fill_rect b \<and> j \<noteq> b_value_text b \<longrightarrow> items (snd r) j = items c j) \<and>
      dom (items (snd r)) = dom (items c) \<and>
      cv_width (snd r) = cv_width c \<and> cv_height (snd r) = cv_height c \<and>
      cv_bg (snd r) = cv_bg c \<and> next_id (snd r) = next_id c"
  unfolding Let_def
  by (intro conjI allI impI)
     (simp_all add: update_final_bubble update_items_other update_items_dom update_canvas_frame)

text \<open>Claim C10 on the CPU bubble of the fresh monitor, updated with 75.\<close>

theorem update_frame_witness:
  "b_label (fst (final_state (update (cpu_bubble fresh_monitor) (Some 75)
      (canvas fresh_monitor)))) = ''CPU'' \<and>
   b_max_value (fst (final_state (update (cpu_bubble fresh_monitor) (Some 75)
      (canvas fresh_monitor)))) = 100 \<and>
   b_width (fst (final_state (update (cpu_bubble fresh_monitor) (Some 75)
      (canvas fresh_monitor)))) = 85 \<and>
   (1::nat) \<noteq> b_fill_rect (cpu_bubble fresh_monitor) \<and>
   (1::nat) \<noteq> b_value_text (cpu_bubble fresh_monitor) \<and>
   items (snd (final_state (update (cpu_bubble fresh_monitor) (Some 75)
      (canvas fresh_monitor)))) 1 = items (canvas fresh_monitor) 1"
  using update_frame [of "cpu_bubble fresh_monitor" 75 "canvas fresh_monitor"]
  by (simp add: Let_def fresh_cpu)

section \<open>The GPU query never raises\<close>

text \<open>
  Claim C8. The GPU query never raises: whatever the availability flag and whatever the
  backend does, it returns. Without a backend it returns three absent readings and
  prints nothing; when the backend raises, the message is printed and the result is
  three absent readings; a backend that reports no GPU gives the same result.
\<close>

theorem get_gpu_stats_never_raises:
  "\<not> isl (get_gpu_stats avail backend out) \<and>
   get_gpu_stats False backend out = Inr ((None, None, None), out) \<and>
   get_gpu_stats True (Inl (Exception msg)) out =
     Inr ((None, None, None), out @ [''GPU stats error: '' @ msg]) \<and>
   get_gpu_stats True (Inr []) out = Inr ((None, None, None), out)"
proof -
  have "\<not> isl (get_gpu_stats avail backend out)"
  proof (cases avail)
    case False
    then show ?thesis by (simp add: get_gpu_stats_def)
  next
    case True
    show ?thesis
    proof (cases backend)
      case (Inl e)
      then show ?thesis using True
        by (cases e) (simp add: get_gpu_stats_def gpu_try_body_def)
    next
      case (Inr gpus)
      then show ?thesis using True
        by (cases gpus) (simp_all add: get_gpu_stats_def gpu_try_body_def Let_def)
    qed
  qed
  then show ?thesis
    by (simp add: get_gpu_stats_def gpu_try_body_def)
qed

end
